theory Spec2Isabelle
  imports Main "HOL-Library.Word"
begin

section \<open>The CR3 dump module (cr3dump.c)\<close>

text \<open>
  The module has two entry points. \<open>cr3_dump_init\<close> logs a banner, walks the host's
  process list and logs, for every process that has a memory descriptor, its pid, its
  command name and the physical address of its page global directory. \<open>cr3_dump_exit\<close>
  logs a banner. Everything the module touches belongs to the host kernel: the process
  list, the memory descriptors, the address translation and the log.
\<close>

subsection \<open>Host data read by the module\<close>

text \<open>
  The host is a 64-bit kernel (x86-64): pointers and \<open>unsigned long\<close> are 64 bits wide,
  \<open>int\<close> is 32 bits wide.

  \<open>struct mm_struct\<close>: the module reads the field \<open>pgd\<close> only, a kernel virtual address
  (a pointer).
\<close>

record mm_struct =
  pgd :: "64 word"

text \<open>
  \<open>struct task_struct\<close>: the module reads \<open>pid\<close> (a C \<open>int\<close>), \<open>comm\<close> (a character
  array holding a NUL-terminated name), and the two pointers \<open>mm\<close> and \<open>active_mm\<close>. A
  pointer is either NULL (\<open>None\<close>) or points to a memory descriptor (\<open>Some\<close>); nothing is
  written through these pointers, so the descriptor is held by value.
\<close>

record task_struct =
  pid :: "32 word"
  comm :: string
  mm :: "mm_struct option"
  active_mm :: "mm_struct option"

text \<open>The log level \<open>KERN_INFO\<close> is the only one the module uses.\<close>

datatype loglevel = KERN_INFO

type_synonym log_line = "loglevel \<times> string"

text \<open>
  The part of the host the module can observe: the process list in the order in which
  \<open>for_each_process\<close> yields it, and the kernel log, oldest line first.
\<close>

record kernel =
  tasks :: "task_struct list"
  klog :: "log_line list"

subsection \<open>Host primitives\<close>

text \<open>
  Modelled from the spec: \<open>printk\<close> is the host's logging sink; it accepts a levelled,
  formatted text line and records it. Its code is not part of the module.
\<close>

definition printk :: "loglevel \<Rightarrow> string \<Rightarrow> kernel \<Rightarrow> kernel" where
  "printk lvl msg s = s\<lparr>klog := klog s @ [(lvl, msg)]\<rparr>"

text \<open>
  Modelled from the spec: the conversions of \<open>printk\<close>'s format string. \<open>%d\<close> writes a
  signed decimal integer, \<open>%s\<close> the characters of a string up to its terminating NUL,
  \<open>%lx\<close> an unsigned machine word in lower-case hexadecimal without padding.
\<close>

definition dec_digit :: "nat \<Rightarrow> char" where
  "dec_digit d = ''0123456789'' ! d"

definition hex_digit :: "nat \<Rightarrow> char" where
  "hex_digit d = ''0123456789abcdef'' ! d"

fun dec_of_nat :: "nat \<Rightarrow> string" where
  "dec_of_nat n =
     (if n < 10 then [dec_digit n] else dec_of_nat (n div 10) @ [dec_digit (n mod 10)])"

fun hex_of_nat :: "nat \<Rightarrow> string" where
  "hex_of_nat n =
     (if n < 16 then [hex_digit n] else hex_of_nat (n div 16) @ [hex_digit (n mod 16)])"

declare dec_of_nat.simps [simp del]
declare hex_of_nat.simps [simp del]

definition fmt_d :: "32 word \<Rightarrow> string" where
  "fmt_d x =
     (if sint x < 0 then CHR ''-'' # dec_of_nat (nat (- sint x)) else dec_of_nat (nat (sint x)))"

definition fmt_s :: "string \<Rightarrow> string" where
  "fmt_s cs = takeWhile (\<lambda>c. c \<noteq> CHR 0x00) cs"

definition fmt_lx :: "64 word \<Rightarrow> string" where
  "fmt_lx x = hex_of_nat (unat x)"

text \<open>
  Modelled from the spec: \<open>for_each_process\<close> is the host's process-enumeration
  primitive; it runs the loop body once for every process, in the order of the host's
  process list. A \<open>continue\<close> in the body ends that iteration only.
\<close>

fun for_each_process ::
  "(task_struct \<Rightarrow> kernel \<Rightarrow> kernel) \<Rightarrow> task_struct list \<Rightarrow> kernel \<Rightarrow> kernel" where
  "for_each_process body [] s = s"
| "for_each_process body (task # rest) s = for_each_process body rest (body task s)"

subsection \<open>The module\<close>

text \<open>
  The text of the per-process line: the format string
  \<^verbatim>\<open>PID: %d | Comm: %s | CR3 (PGD phys): 0x%lx\n\<close> applied to its three arguments.
\<close>

definition report_line :: "32 word \<Rightarrow> string \<Rightarrow> 64 word \<Rightarrow> string" where
  "report_line p c cr3 =
     ''PID: '' @ fmt_d p @ '' | Comm: '' @ fmt_s c @ '' | CR3 (PGD phys): 0x'' @ fmt_lx cr3
       @ ''\<newline>''"

text \<open>
  The body of the loop of \<open>cr3_dump_init\<close>. The translation \<open>virt_to_phys\<close> is the host's;
  it is a parameter of the model.
\<close>

definition cr3_dump_task :: "(64 word \<Rightarrow> 64 word) \<Rightarrow> task_struct \<Rightarrow> kernel \<Rightarrow> kernel" where
  "cr3_dump_task virt_to_phys task s =
     (let mm0 = mm task;
          mm1 = (case mm0 of None \<Rightarrow> active_mm task | Some _ \<Rightarrow> mm0)
      in case mm1 of
           None \<Rightarrow> s
         | Some m \<Rightarrow>
             (let cr3 = virt_to_phys (pgd m)
              in printk KERN_INFO (report_line (pid task) (comm task) cr3) s))"

definition loaded_banner :: string where
  "loaded_banner = ''=== [CR3 Dump Module Loaded] ===\<newline>''"

definition unloaded_banner :: string where
  "unloaded_banner = ''=== [CR3 Dump Module Unloaded] ===\<newline>''"

text \<open>\<open>cr3_dump_init\<close> returns a C \<open>int\<close> together with the state it leaves behind.\<close>

definition cr3_dump_init :: "(64 word \<Rightarrow> 64 word) \<Rightarrow> kernel \<Rightarrow> 32 word \<times> kernel" where
  "cr3_dump_init virt_to_phys s =
     (let s1 = printk KERN_INFO loaded_banner s;
          s2 = for_each_process (cr3_dump_task virt_to_phys) (tasks s1) s1
      in (0, s2))"

definition cr3_dump_exit :: "kernel \<Rightarrow> kernel" where
  "cr3_dump_exit s = printk KERN_INFO unloaded_banner s"

subsection \<open>Observing a run\<close>

text \<open>
  The lines a run of \<open>cr3_dump_init\<close> over the process list \<open>ts\<close> logs after its banner.
\<close>

definition report_lines :: "(64 word \<Rightarrow> 64 word) \<Rightarrow> task_struct list \<Rightarrow> log_line list" where
  "report_lines virt_to_phys ts =
     tl (klog (snd (cr3_dump_init virt_to_phys \<lparr>tasks = ts, klog = []\<rparr>)))"

text \<open>What one iteration of the loop appends to the log.\<close>

definition task_lines :: "(64 word \<Rightarrow> 64 word) \<Rightarrow> task_struct \<Rightarrow> log_line list" where
  "task_lines v t = klog (cr3_dump_task v t \<lparr>tasks = [], klog = []\<rparr>)"

text \<open>The lines logged between a state \<open>s\<close> and a later state \<open>s'\<close>.\<close>

definition emitted :: "kernel \<Rightarrow> kernel \<Rightarrow> log_line list" where
  "emitted s s' = drop (length (klog s)) (klog s')"

subsection \<open>Reading numbers back\<close>

text \<open>
  The value of a digit character and of a digit string in a base, and of a decimal string
  with an optional leading minus sign. They state what the \<open>%d\<close> and \<open>%lx\<close> fields of a
  line denote.
\<close>

definition digit_of_char :: "char \<Rightarrow> nat" where
  "digit_of_char c = (let n = of_char c in if n < 58 then n - 48 else n - 87)"

definition read_digits :: "nat \<Rightarrow> string \<Rightarrow> nat" where
  "read_digits base cs = foldl (\<lambda>acc c. acc * base + digit_of_char c) 0 cs"

definition read_signed :: "string \<Rightarrow> int" where
  "read_signed cs =
     (case cs of
        [] \<Rightarrow> 0
      | c # ds \<Rightarrow> if c = CHR ''-'' then - int (read_digits 10 ds) else int (read_digits 10 cs))"

text \<open>
  Reading the fields of a per-process line back from its text: the pid is the decimal
  number after \<^verbatim>\<open>PID: \<close>; the address is the trailing run of hexadecimal digits before
  the final newline; the name lies between \<^verbatim>\<open> | Comm: \<close> (9 characters) and the
  \<^verbatim>\<open> | CR3 (PGD phys): 0x\<close> (21 characters) that precedes the address and the newline.
\<close>

definition is_hex_char :: "char \<Rightarrow> bool" where
  "is_hex_char c = (c \<in> set ''0123456789abcdef'')"

definition line_pid :: "string \<Rightarrow> int" where
  "line_pid txt = read_signed (takeWhile (\<lambda>c. c \<noteq> CHR '' '') (drop 5 txt))"

definition line_comm :: "string \<Rightarrow> string" where
  "line_comm txt =
     (let r = drop 9 (dropWhile (\<lambda>c. c \<noteq> CHR '' '') (drop 5 txt));
          h = takeWhile is_hex_char (rev (butlast r))
      in take (length r - (length h + 22)) r)"

definition line_cr3 :: "string \<Rightarrow> nat" where
  "line_cr3 txt = read_digits 16 (rev (takeWhile is_hex_char (rev (butlast txt))))"

subsection \<open>An example host\<close>

text \<open>
  Three processes: \<open>init\<close> with a memory descriptor of its own (its \<open>active_mm\<close> is set
  to another descriptor, to tell the two apart in the output), a kernel thread \<open>worker\<close>
  that borrows one, and \<open>zombie\<close> with none. The names fill \<open>comm\<close> arrays of 16 bytes.
  The translation subtracts the base of the direct mapping. The log already holds a line
  of the host's.
\<close>

definition ex_D1 :: mm_struct where
  "ex_D1 = \<lparr>pgd = 0xffff888000001000\<rparr>"

definition ex_D2 :: mm_struct where
  "ex_D2 = \<lparr>pgd = 0xffff888000002000\<rparr>"

definition ex_v2p :: "64 word \<Rightarrow> 64 word" where
  "ex_v2p a = a - 0xffff888000000000"

definition ex_init :: task_struct where
  "ex_init = \<lparr>pid = 1, comm = ''init'' @ replicate 12 (CHR 0x00),
               mm = Some ex_D1, active_mm = Some ex_D2\<rparr>"

definition ex_worker :: task_struct where
  "ex_worker = \<lparr>pid = 50, comm = ''worker'' @ replicate 10 (CHR 0x00),
                 mm = None, active_mm = Some ex_D2\<rparr>"

definition ex_zombie :: task_struct where
  "ex_zombie = \<lparr>pid = 70, comm = ''zombie'' @ replicate 10 (CHR 0x00),
                 mm = None, active_mm = None\<rparr>"

definition ex_kernel :: kernel where
  "ex_kernel = \<lparr>tasks = [ex_init, ex_worker, ex_zombie], klog = [(KERN_INFO, ''boot\<newline>'')]\<rparr>"

section \<open>Basic facts\<close>

lemma cr3_dump_task_update: "cr3_dump_task v t s = s\<lparr>klog := klog s @ task_lines v t\<rparr>"
  by (simp add: cr3_dump_task_def task_lines_def printk_def Let_def split: option.splits)

lemma loop_update:
  "for_each_process (cr3_dump_task v) ts s = s\<lparr>klog := klog s @ concat (map (task_lines v) ts)\<rparr>"
proof (induction ts arbitrary: s)
  case Nil
  show ?case by simp
next
  case (Cons t ts)
  show ?case
    by (simp add: Cons.IH) (simp add: cr3_dump_task_update)
qed

lemma init_result:
  "cr3_dump_init v s =
     (0, s\<lparr>klog := klog s @ (KERN_INFO, loaded_banner) # concat (map (task_lines v) (tasks s))\<rparr>)"
  by (simp add: cr3_dump_init_def Let_def loop_update printk_def)

lemma report_lines_concat: "report_lines v ts = concat (map (task_lines v) ts)"
  by (simp add: report_lines_def init_result)

lemma report_lines_append: "report_lines v (xs @ ys) = report_lines v xs @ report_lines v ys"
  by (simp add: report_lines_concat)

lemma report_lines_Nil: "report_lines v [] = []"
  by (simp add: report_lines_concat)

lemma init_klog:
  "klog (snd (cr3_dump_init v s)) = klog s @ (KERN_INFO, loaded_banner) # report_lines v (tasks s)"
  by (simp add: init_result report_lines_concat)

lemma task_lines_mm:
  "mm t = Some m \<Longrightarrow> task_lines v t = [(KERN_INFO, report_line (pid t) (comm t) (v (pgd m)))]"
  by (simp add: task_lines_def cr3_dump_task_def printk_def)

lemma task_lines_active_mm:
  "mm t = None \<Longrightarrow> active_mm t = Some m \<Longrightarrow>
   task_lines v t = [(KERN_INFO, report_line (pid t) (comm t) (v (pgd m)))]"
  by (simp add: task_lines_def cr3_dump_task_def printk_def)

lemma task_lines_none: "mm t = None \<Longrightarrow> active_mm t = None \<Longrightarrow> task_lines v t = []"
  by (simp add: task_lines_def cr3_dump_task_def)

lemma report_lines_Cons: "report_lines v (t # ts) = task_lines v t @ report_lines v ts"
  by (simp add: report_lines_concat)

lemma emitted_init:
  "emitted s (snd (cr3_dump_init v s)) = (KERN_INFO, loaded_banner) # report_lines v (tasks s)"
  by (simp add: emitted_def init_klog)

lemma emitted_exit: "emitted s (cr3_dump_exit s) = [(KERN_INFO, unloaded_banner)]"
  by (simp add: emitted_def cr3_dump_exit_def printk_def)

lemma task_lines_cases:
  "task_lines v t =
     (case (case mm t of None \<Rightarrow> active_mm t | Some m \<Rightarrow> Some m) of
        None \<Rightarrow> []
      | Some m \<Rightarrow> [(KERN_INFO, report_line (pid t) (comm t) (v (pgd m)))])"
  by (simp add: task_lines_def cr3_dump_task_def printk_def Let_def split: option.splits)

lemma report_lines_member:
  assumes "l \<in> set (report_lines v ts)"
  shows "\<exists>t \<in> set ts. \<exists>m. (mm t = Some m \<or> (mm t = None \<and> active_mm t = Some m))
           \<and> l = (KERN_INFO, report_line (pid t) (comm t) (v (pgd m)))"
proof -
  from assms obtain t where t: "t \<in> set ts" and l: "l \<in> set (task_lines v t)"
    by (auto simp: report_lines_concat)
  from l have "\<exists>m. (mm t = Some m \<or> (mm t = None \<and> active_mm t = Some m))
      \<and> l = (KERN_INFO, report_line (pid t) (comm t) (v (pgd m)))"
    by (cases "mm t"; cases "active_mm t") (auto simp: task_lines_cases)
  with t show ?thesis by blast
qed

lemma report_line_not_banner: "(KERN_INFO, report_line p c a) \<noteq> (KERN_INFO, loaded_banner)"
  by (simp add: report_line_def loaded_banner_def)

lemma banner_not_reported: "(KERN_INFO, loaded_banner) \<notin> set (report_lines v ts)"
  using report_lines_member [of "(KERN_INFO, loaded_banner)" v ts] report_line_not_banner
  by metis

lemma task_lines_active_mm_update:
  "mm t = Some m \<Longrightarrow> task_lines v (t\<lparr>active_mm := a\<rparr>) = task_lines v t"
  by (simp add: task_lines_cases)

lemma length_report_lines:
  "length (report_lines v ts) =
     length (filter (\<lambda>t. \<not> (mm t = None \<and> active_mm t = None)) ts)"
  by (induction ts) (auto simp: report_lines_Nil report_lines_Cons task_lines_cases split: option.splits)


subsection \<open>The number conversions\<close>

lemma below_16: "d < 16 \<Longrightarrow> d \<in> {0, 1, 2, 3, 4, 5, 6, 7, 8, 9, 10, 11, 12, 13, 14, 15::nat}"
  by simp arith

lemma below_10: "d < 10 \<Longrightarrow> d \<in> {0, 1, 2, 3, 4, 5, 6, 7, 8, 9::nat}"
  by simp arith

lemma digit_of_hex_digit: "d < 16 \<Longrightarrow> digit_of_char (hex_digit d) = d"
  by (drule below_16) (auto simp: digit_of_char_def hex_digit_def)

lemma digit_of_dec_digit: "d < 10 \<Longrightarrow> digit_of_char (dec_digit d) = d"
  by (drule below_10) (auto simp: digit_of_char_def dec_digit_def)

lemma hex_digit_in: "d < 16 \<Longrightarrow> hex_digit d \<in> set ''0123456789abcdef''"
  by (drule below_16) (auto simp: hex_digit_def)

lemma dec_digit_in: "d < 10 \<Longrightarrow> dec_digit d \<in> set ''0123456789''"
  by (drule below_10) (auto simp: dec_digit_def)

lemma read_digits_snoc: "read_digits b (cs @ [c]) = read_digits b cs * b + digit_of_char c"
  by (simp add: read_digits_def)

lemma read_digits_single: "read_digits b [c] = digit_of_char c"
  by (simp add: read_digits_def)

lemma read_hex_of_nat: "read_digits 16 (hex_of_nat n) = n"
proof (induction n rule: hex_of_nat.induct)
  case (1 n)
  show ?case
  proof (cases "n < 16")
    case True
    then show ?thesis
      by (subst hex_of_nat.simps) (simp add: read_digits_single digit_of_hex_digit)
  next
    case False
    with 1 have "read_digits 16 (hex_of_nat (n div 16)) = n div 16" by simp
    with False show ?thesis
      by (subst hex_of_nat.simps) (simp add: read_digits_snoc digit_of_hex_digit)
  qed
qed

lemma read_dec_of_nat: "read_digits 10 (dec_of_nat n) = n"
proof (induction n rule: dec_of_nat.induct)
  case (1 n)
  show ?case
  proof (cases "n < 10")
    case True
    then show ?thesis
      by (subst dec_of_nat.simps) (simp add: read_digits_single digit_of_dec_digit)
  next
    case False
    with 1 have "read_digits 10 (dec_of_nat (n div 10)) = n div 10" by simp
    with False show ?thesis
      by (subst dec_of_nat.simps) (simp add: read_digits_snoc digit_of_dec_digit)
  qed
qed

lemma hex_of_nat_digits: "set (hex_of_nat n) \<subseteq> set ''0123456789abcdef''"
proof (induction n rule: hex_of_nat.induct)
  case (1 n)
  show ?case
  proof (cases "n < 16")
    case True
    from hex_digit_in [OF True] show ?thesis
      by (subst hex_of_nat.simps) (simp add: True)
  next
    case False
    have "n mod 16 < 16" by simp
    from hex_digit_in [OF this] 1 False show ?thesis
      by (subst hex_of_nat.simps) simp
  qed
qed

lemma dec_of_nat_digits: "set (dec_of_nat n) \<subseteq> set ''0123456789''"
proof (induction n rule: dec_of_nat.induct)
  case (1 n)
  show ?case
  proof (cases "n < 10")
    case True
    from dec_digit_in [OF True] show ?thesis
      by (subst dec_of_nat.simps) (simp add: True)
  next
    case False
    have "n mod 10 < 10" by simp
    from dec_digit_in [OF this] 1 False show ?thesis
      by (subst dec_of_nat.simps) simp
  qed
qed

lemma hex_of_nat_nonempty: "hex_of_nat n \<noteq> []"
  by (subst hex_of_nat.simps) simp

lemma dec_of_nat_nonempty: "dec_of_nat n \<noteq> []"
  by (subst dec_of_nat.simps) simp

lemma dec_of_nat_no_minus: "hd (dec_of_nat n) \<noteq> CHR ''-''"
proof -
  have "hd (dec_of_nat n) \<in> set (dec_of_nat n)"
    by (simp add: dec_of_nat_nonempty)
  with dec_of_nat_digits [of n] have "hd (dec_of_nat n) \<in> set ''0123456789''" by blast
  then show ?thesis by auto
qed

lemma read_signed_fmt_d: "read_signed (fmt_d p) = sint p"
proof (cases "sint p < 0")
  case True
  then show ?thesis
    by (simp add: fmt_d_def read_signed_def read_dec_of_nat)
next
  case False
  obtain c ds where cd: "dec_of_nat (nat (sint p)) = c # ds"
    using dec_of_nat_nonempty [of "nat (sint p)"] by (cases "dec_of_nat (nat (sint p))") auto
  with dec_of_nat_no_minus [of "nat (sint p)"] have "c \<noteq> CHR ''-''" by simp
  with False cd read_dec_of_nat [of "nat (sint p)"] show ?thesis
    by (simp add: fmt_d_def read_signed_def)
qed

lemma read_hex_fmt_lx: "read_digits 16 (fmt_lx a) = unat a"
  by (simp add: fmt_lx_def read_hex_of_nat)

subsection \<open>Reading a line back\<close>

lemma dec_of_nat_no_space: "x \<in> set (dec_of_nat n) \<Longrightarrow> x \<noteq> CHR '' ''"
  using dec_of_nat_digits [of n] by auto

lemma fmt_d_no_space: "x \<in> set (fmt_d p) \<Longrightarrow> x \<noteq> CHR '' ''"
  by (auto simp: fmt_d_def split: if_splits dest: dec_of_nat_no_space)

lemma fmt_lx_hex: "x \<in> set (fmt_lx a) \<Longrightarrow> is_hex_char x"
  using hex_of_nat_digits [of "unat a"] unfolding fmt_lx_def is_hex_char_def by blast

lemma takeWhile_rev_prefix:
  assumes "\<And>x. x \<in> set xs \<Longrightarrow> P x" and "\<not> P y"
  shows "takeWhile P (rev xs @ y # ys) = rev xs"
proof -
  have "takeWhile P (rev xs @ y # ys) = rev xs @ takeWhile P (y # ys)"
    by (rule takeWhile_append2) (simp add: assms(1))
  with assms(2) show ?thesis by simp
qed

lemma x_not_hex: "\<not> is_hex_char (CHR ''x'')"
  by (simp add: is_hex_char_def)

lemma line_pid_report_line: "line_pid (report_line p c a) = sint p"
proof -
  have "takeWhile (\<lambda>c. c \<noteq> CHR '' '') (fmt_d p @ CHR '' '' # rest) = fmt_d p" for rest
    by (simp add: fmt_d_no_space)
  then show ?thesis
    by (simp add: line_pid_def report_line_def read_signed_fmt_d)
qed

lemma line_comm_report_line: "line_comm (report_line p c a) = fmt_s c"
proof -
  let ?sep = "'' | CR3 (PGD phys): 0x''"
  let ?r = "fmt_s c @ ?sep @ fmt_lx a @ ''\<newline>''"
  have d: "dropWhile (\<lambda>c. c \<noteq> CHR '' '') (fmt_d p @ CHR '' '' # rest) = CHR '' '' # rest" for rest
    by (simp add: fmt_d_no_space)
  have r: "drop 9 (dropWhile (\<lambda>c. c \<noteq> CHR '' '') (drop 5 (report_line p c a))) = ?r"
    by (simp add: report_line_def d)
  have b: "rev (butlast ?r) = rev (fmt_lx a) @ CHR ''x'' # rev (fmt_s c @ '' | CR3 (PGD phys): 0'')"
    by (simp add: butlast_append)
  have h: "takeWhile is_hex_char (rev (butlast ?r)) = rev (fmt_lx a)"
    unfolding b by (rule takeWhile_rev_prefix) (simp_all add: fmt_lx_hex x_not_hex)
  show ?thesis
    unfolding line_comm_def r Let_def h by simp
qed

lemma line_cr3_report_line: "line_cr3 (report_line p c a) = unat a"
proof -
  have b: "rev (butlast (report_line p c a)) =
      rev (fmt_lx a) @ CHR ''x'' # rev (''PID: '' @ fmt_d p @ '' | Comm: '' @ fmt_s c @ '' | CR3 (PGD phys): 0'')"
    by (simp add: report_line_def butlast_append)
  have h: "takeWhile is_hex_char (rev (butlast (report_line p c a))) = rev (fmt_lx a)"
    unfolding b by (rule takeWhile_rev_prefix) (simp_all add: fmt_lx_hex x_not_hex)
  show ?thesis
    unfolding line_cr3_def h by (simp add: read_hex_fmt_lx)
qed

subsection \<open>The example host, evaluated\<close>

lemmas fmt_eval =
  report_line_def fmt_d_def fmt_s_def fmt_lx_def dec_of_nat.simps hex_of_nat.simps
  dec_digit_def hex_digit_def

lemma ex_line_init:
  "report_line (pid ex_init) (comm ex_init) (ex_v2p (pgd ex_D1)) =
     ''PID: 1 | Comm: init | CR3 (PGD phys): 0x1000\<newline>''"
  by (simp add: ex_init_def ex_D1_def ex_v2p_def fmt_eval)

lemma ex_line_worker:
  "report_line (pid ex_worker) (comm ex_worker) (ex_v2p (pgd ex_D2)) =
     ''PID: 50 | Comm: worker | CR3 (PGD phys): 0x2000\<newline>''"
  by (simp add: ex_worker_def ex_D2_def ex_v2p_def fmt_eval)

lemma ex_lines_init:
  "report_lines ex_v2p [ex_init] =
     [(KERN_INFO, ''PID: 1 | Comm: init | CR3 (PGD phys): 0x1000\<newline>'')]"
proof -
  have "mm ex_init = Some ex_D1" by (simp add: ex_init_def)
  then show ?thesis
    by (simp add: report_lines_concat task_lines_mm ex_line_init)
qed

lemma ex_lines_worker:
  "report_lines ex_v2p [ex_worker] =
     [(KERN_INFO, ''PID: 50 | Comm: worker | CR3 (PGD phys): 0x2000\<newline>'')]"
proof -
  have "mm ex_worker = None" and "active_mm ex_worker = Some ex_D2"
    by (simp_all add: ex_worker_def)
  then show ?thesis
    by (simp add: report_lines_concat task_lines_active_mm ex_line_worker)
qed

lemma ex_lines_zombie: "report_lines ex_v2p [ex_zombie] = []"
proof -
  have "mm ex_zombie = None" and "active_mm ex_zombie = None"
    by (simp_all add: ex_zombie_def)
  then show ?thesis
    by (simp add: report_lines_concat task_lines_none)
qed

lemma ex_lines_all:
  "report_lines ex_v2p (tasks ex_kernel) =
     [(KERN_INFO, ''PID: 1 | Comm: init | CR3 (PGD phys): 0x1000\<newline>''),
      (KERN_INFO, ''PID: 50 | Comm: worker | CR3 (PGD phys): 0x2000\<newline>'')]"
proof -
  have "report_lines ex_v2p (tasks ex_kernel) =
      report_lines ex_v2p [ex_init] @ report_lines ex_v2p [ex_worker]
        @ report_lines ex_v2p [ex_zombie]"
    by (simp add: ex_kernel_def report_lines_concat)
  then show ?thesis
    by (simp add: ex_lines_init ex_lines_worker ex_lines_zombie)
qed

lemma ex_klog: "klog ex_kernel = [(KERN_INFO, ''boot\<newline>'')]"
  by (simp add: ex_kernel_def)

section \<open>The claims\<close>

text \<open>
  C1: a process of the enumeration that has a primary or a fallback memory descriptor gets
  exactly one line: the log of the run is the old log, the banner, the lines of the
  processes enumerated before it, one line for the process, and the lines of the processes
  enumerated after it. The pid and the name read back from that line are the pid and the
  name its \<open>task_struct\<close> holds.
\<close>

theorem process_with_descriptor_reported_once:
  assumes "tasks s = xs @ t # ys"
    and "mm t = Some m \<or> (mm t = None \<and> active_mm t = Some m)"
  shows "\<exists>txt.
           klog (snd (cr3_dump_init v s)) =
             klog s @ (KERN_INFO, loaded_banner) # report_lines v xs
               @ [(KERN_INFO, txt)] @ report_lines v ys
           \<and> txt = ''PID: '' @ fmt_d (pid t) @ '' | Comm: '' @ fmt_s (comm t)
                   @ '' | CR3 (PGD phys): 0x'' @ fmt_lx (v (pgd m)) @ ''\<newline>''
           \<and> line_pid txt = sint (pid t)
           \<and> line_comm txt = fmt_s (comm t)"
proof -
  from assms(2) have "task_lines v t = [(KERN_INFO, report_line (pid t) (comm t) (v (pgd m)))]"
    by (auto simp: task_lines_mm task_lines_active_mm)
  then have "klog (snd (cr3_dump_init v s)) =
      klog s @ (KERN_INFO, loaded_banner) # report_lines v xs
        @ [(KERN_INFO, report_line (pid t) (comm t) (v (pgd m)))] @ report_lines v ys"
    by (simp add: init_klog assms(1) report_lines_append report_lines_Cons)
  moreover have "report_line (pid t) (comm t) (v (pgd m)) =
      ''PID: '' @ fmt_d (pid t) @ '' | Comm: '' @ fmt_s (comm t)
        @ '' | CR3 (PGD phys): 0x'' @ fmt_lx (v (pgd m)) @ ''\<newline>''"
    by (simp only: report_line_def)
  moreover note line_pid_report_line [of "pid t" "comm t" "v (pgd m)"]
    line_comm_report_line [of "pid t" "comm t" "v (pgd m)"]
  ultimately show ?thesis by blast
qed

theorem process_with_descriptor_reported_once_witness:
  "klog (snd (cr3_dump_init ex_v2p ex_kernel)) =
     [(KERN_INFO, ''boot\<newline>''),
      (KERN_INFO, ''=== [CR3 Dump Module Loaded] ===\<newline>''),
      (KERN_INFO, ''PID: 1 | Comm: init | CR3 (PGD phys): 0x1000\<newline>''),
      (KERN_INFO, ''PID: 50 | Comm: worker | CR3 (PGD phys): 0x2000\<newline>'')]
   \<and> line_pid ''PID: 50 | Comm: worker | CR3 (PGD phys): 0x2000\<newline>'' = 50
   \<and> line_comm ''PID: 50 | Comm: worker | CR3 (PGD phys): 0x2000\<newline>'' = ''worker''"
proof -
  have a: "tasks ex_kernel = [ex_init] @ ex_worker # [ex_zombie]"
    by (simp add: ex_kernel_def)
  have b: "mm ex_worker = Some ex_D2 \<or> (mm ex_worker = None \<and> active_mm ex_worker = Some ex_D2)"
    by (simp add: ex_worker_def)
  have c: "''PID: '' @ fmt_d (pid ex_worker) @ '' | Comm: '' @ fmt_s (comm ex_worker)
             @ '' | CR3 (PGD phys): 0x'' @ fmt_lx (ex_v2p (pgd ex_D2)) @ ''\<newline>'' =
           ''PID: 50 | Comm: worker | CR3 (PGD phys): 0x2000\<newline>''"
    using ex_line_worker by (simp add: report_line_def)
  have d: "sint (pid ex_worker) = 50" and e: "fmt_s (comm ex_worker) = ''worker''"
    by (simp_all add: ex_worker_def fmt_s_def)
  from process_with_descriptor_reported_once [OF a b, of ex_v2p]
  obtain ln where
    k: "klog (snd (cr3_dump_init ex_v2p ex_kernel)) =
       klog ex_kernel @ (KERN_INFO, loaded_banner) # report_lines ex_v2p [ex_init]
         @ [(KERN_INFO, ln)] @ report_lines ex_v2p [ex_zombie]"
    and t: "ln = ''PID: '' @ fmt_d (pid ex_worker) @ '' | Comm: '' @ fmt_s (comm ex_worker)
             @ '' | CR3 (PGD phys): 0x'' @ fmt_lx (ex_v2p (pgd ex_D2)) @ ''\<newline>''"
    and p: "line_pid ln = sint (pid ex_worker)"
    and n: "line_comm ln = fmt_s (comm ex_worker)"
    by (elim exE conjE)
  from t have t': "ln = ''PID: 50 | Comm: worker | CR3 (PGD phys): 0x2000\<newline>''"
    by (simp only: c)
  from p have p': "line_pid ''PID: 50 | Comm: worker | CR3 (PGD phys): 0x2000\<newline>'' = 50"
    by (simp only: t' d)
  from n have n': "line_comm ''PID: 50 | Comm: worker | CR3 (PGD phys): 0x2000\<newline>'' = ''worker''"
    by (simp only: t' e)
  from k have k': "klog (snd (cr3_dump_init ex_v2p ex_kernel)) =
     [(KERN_INFO, ''boot\<newline>''),
      (KERN_INFO, ''=== [CR3 Dump Module Loaded] ===\<newline>''),
      (KERN_INFO, ''PID: 1 | Comm: init | CR3 (PGD phys): 0x1000\<newline>''),
      (KERN_INFO, ''PID: 50 | Comm: worker | CR3 (PGD phys): 0x2000\<newline>'')]"
    by (simp add: t' ex_lines_init ex_lines_zombie ex_klog loaded_banner_def)
  from k' p' n' show ?thesis by (intro conjI)
qed

text \<open>
  C2: a process whose \<open>mm\<close> and \<open>active_mm\<close> are both NULL gets no line. The run returns 0
  and changes nothing but the log, which receives the banner, the lines of the processes
  before it and the lines of the processes after it: the same log as if the process were
  not in the list. No error is returned or logged.
\<close>

theorem process_without_descriptor_skipped:
  assumes "tasks s = xs @ t # ys" and "mm t = None" and "active_mm t = None"
  shows "cr3_dump_init v s =
           (0, s\<lparr>klog := klog s @ (KERN_INFO, loaded_banner) # report_lines v xs
                                @ report_lines v ys\<rparr>)
         \<and> klog (snd (cr3_dump_init v s)) = klog (snd (cr3_dump_init v (s\<lparr>tasks := xs @ ys\<rparr>)))"
  using assms
  by (simp add: init_result report_lines_concat task_lines_none)

theorem process_without_descriptor_skipped_witness:
  "cr3_dump_init ex_v2p ex_kernel =
     (0, ex_kernel\<lparr>klog :=
           [(KERN_INFO, ''boot\<newline>''),
            (KERN_INFO, ''=== [CR3 Dump Module Loaded] ===\<newline>''),
            (KERN_INFO, ''PID: 1 | Comm: init | CR3 (PGD phys): 0x1000\<newline>''),
            (KERN_INFO, ''PID: 50 | Comm: worker | CR3 (PGD phys): 0x2000\<newline>'')]\<rparr>)
   \<and> klog (snd (cr3_dump_init ex_v2p ex_kernel)) =
       klog (snd (cr3_dump_init ex_v2p (ex_kernel\<lparr>tasks := [ex_init, ex_worker]\<rparr>)))"
proof -
  have a: "tasks ex_kernel = [ex_init, ex_worker] @ ex_zombie # []"
    by (simp add: ex_kernel_def)
  have b: "mm ex_zombie = None" and c: "active_mm ex_zombie = None"
    by (simp_all add: ex_zombie_def)
  have d: "report_lines ex_v2p [ex_init, ex_worker] =
      [(KERN_INFO, ''PID: 1 | Comm: init | CR3 (PGD phys): 0x1000\<newline>''),
       (KERN_INFO, ''PID: 50 | Comm: worker | CR3 (PGD phys): 0x2000\<newline>'')]"
    using report_lines_append [of ex_v2p "[ex_init]" "[ex_worker]"]
    by (simp add: ex_lines_init ex_lines_worker)
  note th = process_without_descriptor_skipped [OF a b c, of ex_v2p]
  from th [THEN conjunct1] have e: "cr3_dump_init ex_v2p ex_kernel =
     (0, ex_kernel\<lparr>klog :=
           [(KERN_INFO, ''boot\<newline>''),
            (KERN_INFO, ''=== [CR3 Dump Module Loaded] ===\<newline>''),
            (KERN_INFO, ''PID: 1 | Comm: init | CR3 (PGD phys): 0x1000\<newline>''),
            (KERN_INFO, ''PID: 50 | Comm: worker | CR3 (PGD phys): 0x2000\<newline>'')]\<rparr>)"
    by (simp add: d report_lines_Nil ex_klog loaded_banner_def)
  from th [THEN conjunct2] have f: "klog (snd (cr3_dump_init ex_v2p ex_kernel)) =
       klog (snd (cr3_dump_init ex_v2p (ex_kernel\<lparr>tasks := [ex_init, ex_worker]\<rparr>)))"
    by simp
  show ?thesis by (rule conjI [OF e f])
qed

text \<open>
  C3: the memory descriptor of a process is resolved in a fixed order. If \<open>mm\<close> is set the
  line shows the translation of its \<open>pgd\<close>, and the log does not depend on \<open>active_mm\<close>:
  replacing it by any value \<open>a\<close> leaves the log of the run the same. If \<open>mm\<close> is NULL and
  \<open>active_mm\<close> is set the line shows the translation of the \<open>pgd\<close> of \<open>active_mm\<close>. If both
  are NULL the process has no line.
\<close>

theorem descriptor_preference_order:
  assumes "tasks s = xs @ t # ys"
  shows "(mm t = Some m \<longrightarrow>
            klog (snd (cr3_dump_init v s)) =
              klog s @ (KERN_INFO, loaded_banner) # report_lines v xs
                @ [(KERN_INFO, report_line (pid t) (comm t) (v (pgd m)))] @ report_lines v ys
            \<and> klog (snd (cr3_dump_init v (s\<lparr>tasks := xs @ t\<lparr>active_mm := a\<rparr> # ys\<rparr>))) =
                klog (snd (cr3_dump_init v s)))
       \<and> (mm t = None \<and> active_mm t = Some m \<longrightarrow>
            klog (snd (cr3_dump_init v s)) =
              klog s @ (KERN_INFO, loaded_banner) # report_lines v xs
                @ [(KERN_INFO, report_line (pid t) (comm t) (v (pgd m)))] @ report_lines v ys)
       \<and> (mm t = None \<and> active_mm t = None \<longrightarrow>
            klog (snd (cr3_dump_init v s)) =
              klog s @ (KERN_INFO, loaded_banner) # report_lines v xs @ report_lines v ys)"
proof (intro conjI impI)
  assume "mm t = Some m"
  then show "klog (snd (cr3_dump_init v s)) =
      klog s @ (KERN_INFO, loaded_banner) # report_lines v xs
        @ [(KERN_INFO, report_line (pid t) (comm t) (v (pgd m)))] @ report_lines v ys"
    by (simp add: init_klog assms report_lines_append report_lines_Cons task_lines_mm)
next
  assume "mm t = Some m"
  then show "klog (snd (cr3_dump_init v (s\<lparr>tasks := xs @ t\<lparr>active_mm := a\<rparr> # ys\<rparr>))) =
      klog (snd (cr3_dump_init v s))"
    by (simp add: init_klog assms report_lines_append report_lines_Cons
        task_lines_active_mm_update)
next
  assume "mm t = None \<and> active_mm t = Some m"
  then show "klog (snd (cr3_dump_init v s)) =
      klog s @ (KERN_INFO, loaded_banner) # report_lines v xs
        @ [(KERN_INFO, report_line (pid t) (comm t) (v (pgd m)))] @ report_lines v ys"
    by (simp add: init_klog assms report_lines_append report_lines_Cons task_lines_active_mm)
next
  assume "mm t = None \<and> active_mm t = None"
  then show "klog (snd (cr3_dump_init v s)) =
      klog s @ (KERN_INFO, loaded_banner) # report_lines v xs @ report_lines v ys"
    by (simp add: init_klog assms report_lines_append report_lines_Cons task_lines_none)
qed

theorem descriptor_preference_order_witness:
  "klog (snd (cr3_dump_init ex_v2p (ex_kernel\<lparr>tasks := [ex_init]\<rparr>))) =
     [(KERN_INFO, ''boot\<newline>''),
      (KERN_INFO, ''=== [CR3 Dump Module Loaded] ===\<newline>''),
      (KERN_INFO, ''PID: 1 | Comm: init | CR3 (PGD phys): 0x1000\<newline>'')]
   \<and> klog (snd (cr3_dump_init ex_v2p
              (ex_kernel\<lparr>tasks := [ex_init\<lparr>active_mm := None\<rparr>]\<rparr>))) =
       klog (snd (cr3_dump_init ex_v2p (ex_kernel\<lparr>tasks := [ex_init]\<rparr>)))
   \<and> klog (snd (cr3_dump_init ex_v2p (ex_kernel\<lparr>tasks := [ex_worker]\<rparr>))) =
     [(KERN_INFO, ''boot\<newline>''),
      (KERN_INFO, ''=== [CR3 Dump Module Loaded] ===\<newline>''),
      (KERN_INFO, ''PID: 50 | Comm: worker | CR3 (PGD phys): 0x2000\<newline>'')]
   \<and> klog (snd (cr3_dump_init ex_v2p (ex_kernel\<lparr>tasks := [ex_zombie]\<rparr>))) =
     [(KERN_INFO, ''boot\<newline>''),
      (KERN_INFO, ''=== [CR3 Dump Module Loaded] ===\<newline>'')]"
proof -
  have k: "klog (ex_kernel\<lparr>tasks := ts\<rparr>) = [(KERN_INFO, ''boot\<newline>'')]" for ts
    by (simp add: ex_kernel_def)
  have i: "tasks (ex_kernel\<lparr>tasks := [ex_init]\<rparr>) = [] @ ex_init # []"
    and w: "tasks (ex_kernel\<lparr>tasks := [ex_worker]\<rparr>) = [] @ ex_worker # []"
    and z: "tasks (ex_kernel\<lparr>tasks := [ex_zombie]\<rparr>) = [] @ ex_zombie # []"
    by simp_all
  have mi: "mm ex_init = Some ex_D1"
    by (simp add: ex_init_def)
  have mw: "mm ex_worker = None \<and> active_mm ex_worker = Some ex_D2"
    by (simp add: ex_worker_def)
  have mz: "mm ex_zombie = None \<and> active_mm ex_zombie = None"
    by (simp add: ex_zombie_def)
  note first = descriptor_preference_order [OF i, of ex_D1 ex_v2p None, THEN conjunct1, rule_format, OF mi]
  note second = descriptor_preference_order [OF w, of ex_D2 ex_v2p None, THEN conjunct2, THEN conjunct1, rule_format, OF mw]
  note third = descriptor_preference_order [OF z, of ex_D1 ex_v2p None, THEN conjunct2, THEN conjunct2, rule_format, OF mz]
  have a: "klog (snd (cr3_dump_init ex_v2p (ex_kernel\<lparr>tasks := [ex_init]\<rparr>))) =
     [(KERN_INFO, ''boot\<newline>''),
      (KERN_INFO, ''=== [CR3 Dump Module Loaded] ===\<newline>''),
      (KERN_INFO, ''PID: 1 | Comm: init | CR3 (PGD phys): 0x1000\<newline>'')]"
    using first [THEN conjunct1] by (simp add: k report_lines_Nil ex_line_init loaded_banner_def)
  have b: "klog (snd (cr3_dump_init ex_v2p
              (ex_kernel\<lparr>tasks := [ex_init\<lparr>active_mm := None\<rparr>]\<rparr>))) =
       klog (snd (cr3_dump_init ex_v2p (ex_kernel\<lparr>tasks := [ex_init]\<rparr>)))"
    using first [THEN conjunct2] by simp
  have c: "klog (snd (cr3_dump_init ex_v2p (ex_kernel\<lparr>tasks := [ex_worker]\<rparr>))) =
     [(KERN_INFO, ''boot\<newline>''),
      (KERN_INFO, ''=== [CR3 Dump Module Loaded] ===\<newline>''),
      (KERN_INFO, ''PID: 50 | Comm: worker | CR3 (PGD phys): 0x2000\<newline>'')]"
    using second by (simp add: k report_lines_Nil ex_line_worker loaded_banner_def)
  have d: "klog (snd (cr3_dump_init ex_v2p (ex_kernel\<lparr>tasks := [ex_zombie]\<rparr>))) =
     [(KERN_INFO, ''boot\<newline>''),
      (KERN_INFO, ''=== [CR3 Dump Module Loaded] ===\<newline>'')]"
    using third by (simp add: k report_lines_Nil loaded_banner_def)
  from a b c d show ?thesis by (intro conjI)
qed

text \<open>
  C4: the scenario of three processes. The host enumerates pid 1 named init, whose \<open>mm\<close>
  is D1; pid 50 named worker, whose \<open>mm\<close> is NULL and whose \<open>active_mm\<close> is D2; and pid 70
  named zombie, with both NULL. The translation maps the \<open>pgd\<close> of D1 to 0x1000 and that of
  D2 to 0x2000. The run logs the banner, the line of pid 1 with 0x1000 and the line of
  pid 50 with 0x2000, in this order, and nothing for pid 70.
\<close>

theorem three_process_scenario:
  assumes "tasks s = [p1, p50, p70]"
    and "pid p1 = 1" and "fmt_s (comm p1) = ''init''" and "mm p1 = Some D1"
    and "pid p50 = 50" and "fmt_s (comm p50) = ''worker''"
    and "mm p50 = None" and "active_mm p50 = Some D2"
    and "pid p70 = 70" and "fmt_s (comm p70) = ''zombie''"
    and "mm p70 = None" and "active_mm p70 = None"
    and "v (pgd D1) = 0x1000" and "v (pgd D2) = 0x2000"
  shows "klog (snd (cr3_dump_init v s)) =
           klog s @
             [(KERN_INFO, ''=== [CR3 Dump Module Loaded] ===\<newline>''),
              (KERN_INFO, ''PID: 1 | Comm: init | CR3 (PGD phys): 0x1000\<newline>''),
              (KERN_INFO, ''PID: 50 | Comm: worker | CR3 (PGD phys): 0x2000\<newline>'')]"
proof -
  have d1: "fmt_d 1 = ''1''" and d50: "fmt_d 50 = ''50''"
    by (simp_all add: fmt_d_def dec_of_nat.simps dec_digit_def)
  have x1: "fmt_lx 0x1000 = ''1000''" and x2: "fmt_lx 0x2000 = ''2000''"
    by (simp_all add: fmt_lx_def hex_of_nat.simps hex_digit_def)
  have l1: "task_lines v p1 =
      [(KERN_INFO, ''PID: 1 | Comm: init | CR3 (PGD phys): 0x1000\<newline>'')]"
    using assms(2-4,13) by (simp add: task_lines_mm report_line_def d1 x1)
  have l50: "task_lines v p50 =
      [(KERN_INFO, ''PID: 50 | Comm: worker | CR3 (PGD phys): 0x2000\<newline>'')]"
    using assms(5-8,14) by (simp add: task_lines_active_mm report_line_def d50 x2)
  have l70: "task_lines v p70 = []"
    using assms(11,12) by (simp add: task_lines_none)
  show ?thesis
    by (simp add: init_result assms(1) l1 l50 l70 loaded_banner_def)
qed

theorem three_process_scenario_witness:
  "klog (snd (cr3_dump_init ex_v2p (ex_kernel\<lparr>klog := []\<rparr>))) =
     [(KERN_INFO, ''=== [CR3 Dump Module Loaded] ===\<newline>''),
      (KERN_INFO, ''PID: 1 | Comm: init | CR3 (PGD phys): 0x1000\<newline>''),
      (KERN_INFO, ''PID: 50 | Comm: worker | CR3 (PGD phys): 0x2000\<newline>'')]"
proof -
  have t: "tasks (ex_kernel\<lparr>klog := []\<rparr>) = [ex_init, ex_worker, ex_zombie]"
    by (simp add: ex_kernel_def)
  have i: "pid ex_init = 1" "fmt_s (comm ex_init) = ''init''" "mm ex_init = Some ex_D1"
    by (simp_all add: ex_init_def fmt_s_def)
  have w: "pid ex_worker = 50" "fmt_s (comm ex_worker) = ''worker''"
    "mm ex_worker = None" "active_mm ex_worker = Some ex_D2"
    by (simp_all add: ex_worker_def fmt_s_def)
  have z: "pid ex_zombie = 70" "fmt_s (comm ex_zombie) = ''zombie''"
    "mm ex_zombie = None" "active_mm ex_zombie = None"
    by (simp_all add: ex_zombie_def fmt_s_def)
  have v: "ex_v2p (pgd ex_D1) = 0x1000" "ex_v2p (pgd ex_D2) = 0x2000"
    by (simp_all add: ex_v2p_def ex_D1_def ex_D2_def)
  show ?thesis
    using three_process_scenario [OF t i w z v] by simp
qed

text \<open>
  C5: the lines a run of \<open>cr3_dump_init\<close> emits are its banner followed by the per-process
  lines. No per-process line is the banner, each is the line of a process of the
  enumeration, and so the banner occurs exactly once, in first place. A run of
  \<open>cr3_dump_exit\<close> emits its banner and nothing else.
\<close>

theorem one_banner_first:
  "emitted s (snd (cr3_dump_init v s)) =
     (KERN_INFO, ''=== [CR3 Dump Module Loaded] ===\<newline>'') # report_lines v (tasks s)
   \<and> (\<forall>l \<in> set (report_lines v (tasks s)).
         l \<noteq> (KERN_INFO, ''=== [CR3 Dump Module Loaded] ===\<newline>'')
         \<and> (\<exists>t \<in> set (tasks s). \<exists>a. l = (KERN_INFO, report_line (pid t) (comm t) a)))
   \<and> count_list (emitted s (snd (cr3_dump_init v s)))
         (KERN_INFO, ''=== [CR3 Dump Module Loaded] ===\<newline>'') = 1
   \<and> emitted s (cr3_dump_exit s) = [(KERN_INFO, ''=== [CR3 Dump Module Unloaded] ===\<newline>'')]"
proof (intro conjI ballI)
  show e: "emitted s (snd (cr3_dump_init v s)) =
     (KERN_INFO, ''=== [CR3 Dump Module Loaded] ===\<newline>'') # report_lines v (tasks s)"
    using emitted_init [of s v] by (simp add: loaded_banner_def)
  have n: "(KERN_INFO, ''=== [CR3 Dump Module Loaded] ===\<newline>'') \<notin> set (report_lines v (tasks s))"
    using banner_not_reported [of v "tasks s"] by (simp add: loaded_banner_def)
  then show "count_list (emitted s (snd (cr3_dump_init v s)))
         (KERN_INFO, ''=== [CR3 Dump Module Loaded] ===\<newline>'') = 1"
    by (simp add: e count_list_0_iff)
  show "emitted s (cr3_dump_exit s) = [(KERN_INFO, ''=== [CR3 Dump Module Unloaded] ===\<newline>'')]"
    using emitted_exit [of s] by (simp add: unloaded_banner_def)
  fix l
  assume l: "l \<in> set (report_lines v (tasks s))"
  with n show "l \<noteq> (KERN_INFO, ''=== [CR3 Dump Module Loaded] ===\<newline>'')"
    by blast
  from report_lines_member [OF l]
  show "\<exists>t \<in> set (tasks s). \<exists>a. l = (KERN_INFO, report_line (pid t) (comm t) a)"
    by blast
qed

theorem one_banner_first_witness:
  "emitted ex_kernel (snd (cr3_dump_init ex_v2p ex_kernel)) =
     [(KERN_INFO, ''=== [CR3 Dump Module Loaded] ===\<newline>''),
      (KERN_INFO, ''PID: 1 | Comm: init | CR3 (PGD phys): 0x1000\<newline>''),
      (KERN_INFO, ''PID: 50 | Comm: worker | CR3 (PGD phys): 0x2000\<newline>'')]
   \<and> (KERN_INFO, ''PID: 50 | Comm: worker | CR3 (PGD phys): 0x2000\<newline>'')
        \<in> set (report_lines ex_v2p (tasks ex_kernel))
   \<and> (\<exists>t \<in> set (tasks ex_kernel). \<exists>a.
         (KERN_INFO, ''PID: 50 | Comm: worker | CR3 (PGD phys): 0x2000\<newline>'') =
           (KERN_INFO, report_line (pid t) (comm t) a))
   \<and> emitted ex_kernel (cr3_dump_exit ex_kernel) =
        [(KERN_INFO, ''=== [CR3 Dump Module Unloaded] ===\<newline>'')]"
proof -
  note th = one_banner_first [of ex_kernel ex_v2p]
  have m: "(KERN_INFO, ''PID: 50 | Comm: worker | CR3 (PGD phys): 0x2000\<newline>'')
      \<in> set (report_lines ex_v2p (tasks ex_kernel))"
    by (simp add: ex_lines_all)
  from th [THEN conjunct1]
  have a: "emitted ex_kernel (snd (cr3_dump_init ex_v2p ex_kernel)) =
     [(KERN_INFO, ''=== [CR3 Dump Module Loaded] ===\<newline>''),
      (KERN_INFO, ''PID: 1 | Comm: init | CR3 (PGD phys): 0x1000\<newline>''),
      (KERN_INFO, ''PID: 50 | Comm: worker | CR3 (PGD phys): 0x2000\<newline>'')]"
    by (simp add: ex_lines_all)
  from th [THEN conjunct2, THEN conjunct1, rule_format, OF m, THEN conjunct2]
  have b: "\<exists>t \<in> set (tasks ex_kernel). \<exists>a.
         (KERN_INFO, ''PID: 50 | Comm: worker | CR3 (PGD phys): 0x2000\<newline>'') =
           (KERN_INFO, report_line (pid t) (comm t) a)" .
  note c = th [THEN conjunct2, THEN conjunct2, THEN conjunct2]
  from a m b c show ?thesis by (intro conjI)
qed

text \<open>
  C6: every per-process line of a run (every line the run emits after its banner) is, for
  some process of the enumeration and the memory descriptor resolved for it, the text
  \<^verbatim>\<open>PID: <integer> | Comm: <string> | CR3 (PGD phys): 0x<hex>\<close> ended by a newline. The
  integer is the pid in signed decimal, the string is the name held in \<open>comm\<close>, and the
  hexadecimal field is the translation \<open>virt_to_phys\<close> of the descriptor's \<open>pgd\<close>: a
  non-empty string of the digits 0-9 and a-f whose value, read in base 16, is the unsigned
  value of that 64-bit word.
\<close>

theorem report_line_format:
  assumes "l \<in> set (tl (emitted s (snd (cr3_dump_init v s))))"
  shows "\<exists>t \<in> set (tasks s). \<exists>m.
           (mm t = Some m \<or> (mm t = None \<and> active_mm t = Some m))
           \<and> l = (KERN_INFO, ''PID: '' @ fmt_d (pid t) @ '' | Comm: '' @ fmt_s (comm t)
                     @ '' | CR3 (PGD phys): 0x'' @ fmt_lx (v (pgd m)) @ ''\<newline>'')
           \<and> read_signed (fmt_d (pid t)) = sint (pid t)
           \<and> fmt_lx (v (pgd m)) \<noteq> []
           \<and> set (fmt_lx (v (pgd m))) \<subseteq> set ''0123456789abcdef''
           \<and> read_digits 16 (fmt_lx (v (pgd m))) = unat (v (pgd m))
           \<and> line_cr3 (snd l) = unat (v (pgd m))"
proof -
  from assms have "l \<in> set (report_lines v (tasks s))"
    by (simp add: emitted_init)
  from report_lines_member [OF this] obtain t m where t: "t \<in> set (tasks s)"
    and m: "mm t = Some m \<or> (mm t = None \<and> active_mm t = Some m)"
    and l: "l = (KERN_INFO, report_line (pid t) (comm t) (v (pgd m)))"
    by blast
  have ne: "fmt_lx (v (pgd m)) \<noteq> []"
    by (simp add: fmt_lx_def hex_of_nat_nonempty)
  have dg: "set (fmt_lx (v (pgd m))) \<subseteq> set ''0123456789abcdef''"
    unfolding fmt_lx_def by (rule hex_of_nat_digits)
  have rs: "read_signed (fmt_d (pid t)) = sint (pid t)"
    by (rule read_signed_fmt_d)
  have rh: "read_digits 16 (fmt_lx (v (pgd m))) = unat (v (pgd m))"
    by (rule read_hex_fmt_lx)
  from l have lc: "line_cr3 (snd l) = unat (v (pgd m))"
    by (simp add: line_cr3_report_line)
  from l have "l = (KERN_INFO, ''PID: '' @ fmt_d (pid t) @ '' | Comm: '' @ fmt_s (comm t)
      @ '' | CR3 (PGD phys): 0x'' @ fmt_lx (v (pgd m)) @ ''\<newline>'')"
    by (simp only: report_line_def)
  with t m rs ne dg rh lc show ?thesis by blast
qed

theorem report_line_format_witness:
  "(KERN_INFO, ''PID: 50 | Comm: worker | CR3 (PGD phys): 0x2000\<newline>'')
     \<in> set (tl (emitted ex_kernel (snd (cr3_dump_init ex_v2p ex_kernel))))
   \<and> (\<exists>t \<in> set (tasks ex_kernel). \<exists>m.
         (mm t = Some m \<or> (mm t = None \<and> active_mm t = Some m))
         \<and> (KERN_INFO, ''PID: 50 | Comm: worker | CR3 (PGD phys): 0x2000\<newline>'') =
             (KERN_INFO, ''PID: '' @ fmt_d (pid t) @ '' | Comm: '' @ fmt_s (comm t)
                @ '' | CR3 (PGD phys): 0x'' @ fmt_lx (ex_v2p (pgd m)) @ ''\<newline>'')
         \<and> read_signed (fmt_d (pid t)) = sint (pid t)
         \<and> fmt_lx (ex_v2p (pgd m)) \<noteq> []
         \<and> set (fmt_lx (ex_v2p (pgd m))) \<subseteq> set ''0123456789abcdef''
         \<and> read_digits 16 (fmt_lx (ex_v2p (pgd m))) = unat (ex_v2p (pgd m))
         \<and> line_cr3 (snd (KERN_INFO, ''PID: 50 | Comm: worker | CR3 (PGD phys): 0x2000\<newline>'')) =
             unat (ex_v2p (pgd m)))"
proof -
  have m: "(KERN_INFO, ''PID: 50 | Comm: worker | CR3 (PGD phys): 0x2000\<newline>'')
     \<in> set (tl (emitted ex_kernel (snd (cr3_dump_init ex_v2p ex_kernel))))"
    by (simp add: emitted_init ex_lines_all)
  from m report_line_format [OF m] show ?thesis by (rule conjI)
qed

text \<open>
  C7: a run of \<open>cr3_dump_init\<close>, then \<open>cr3_dump_exit\<close>, then a second run of
  \<open>cr3_dump_init\<close> with the same translation. The module leaves the process list as it
  was. Between the runs the host may come to enumerate the same processes in another
  order \<open>ts'\<close> (the same set of tasks, in any order and any multiplicity): the second run
  then emits the same set of per-process lines as the first. If the order is unchanged as
  well, the second run emits the same sequence of per-process lines.
\<close>

theorem two_runs_same_lines:
  assumes "set ts' = set (tasks s)"
  shows "(let s1 = snd (cr3_dump_init v s);
              s2 = cr3_dump_exit s1;
              s2' = s2\<lparr>tasks := ts'\<rparr>;
              s3 = snd (cr3_dump_init v s2')
          in tasks s2 = tasks s
             \<and> set (tl (emitted s s1)) = set (tl (emitted s2' s3))
             \<and> (ts' = tasks s \<longrightarrow> s2' = s2 \<and> tl (emitted s s1) = tl (emitted s2' s3)))"
proof -
  have t: "tasks (cr3_dump_exit (snd (cr3_dump_init v s))) = tasks s"
    by (simp add: cr3_dump_exit_def printk_def init_result)
  have "set (report_lines v ts) = (\<Union>t \<in> set ts. set (task_lines v t))" for ts
    by (simp add: report_lines_concat)
  with assms have "set (report_lines v ts') = set (report_lines v (tasks s))"
    by simp
  moreover have "ts' = tasks s \<Longrightarrow>
      (cr3_dump_exit (snd (cr3_dump_init v s)))\<lparr>tasks := ts'\<rparr> =
        cr3_dump_exit (snd (cr3_dump_init v s))"
    using t by simp
  ultimately show ?thesis
    using t by (simp add: Let_def emitted_init)
qed

theorem two_runs_same_lines_witness:
  "tl (emitted ex_kernel (snd (cr3_dump_init ex_v2p ex_kernel))) =
     [(KERN_INFO, ''PID: 1 | Comm: init | CR3 (PGD phys): 0x1000\<newline>''),
      (KERN_INFO, ''PID: 50 | Comm: worker | CR3 (PGD phys): 0x2000\<newline>'')]
   \<and> tl (emitted
          ((cr3_dump_exit (snd (cr3_dump_init ex_v2p ex_kernel)))
             \<lparr>tasks := [ex_zombie, ex_worker, ex_init]\<rparr>)
          (snd (cr3_dump_init ex_v2p
             ((cr3_dump_exit (snd (cr3_dump_init ex_v2p ex_kernel)))
                \<lparr>tasks := [ex_zombie, ex_worker, ex_init]\<rparr>)))) =
     [(KERN_INFO, ''PID: 50 | Comm: worker | CR3 (PGD phys): 0x2000\<newline>''),
      (KERN_INFO, ''PID: 1 | Comm: init | CR3 (PGD phys): 0x1000\<newline>'')]
   \<and> set (tl (emitted ex_kernel (snd (cr3_dump_init ex_v2p ex_kernel)))) =
       set (tl (emitted
          ((cr3_dump_exit (snd (cr3_dump_init ex_v2p ex_kernel)))
             \<lparr>tasks := [ex_zombie, ex_worker, ex_init]\<rparr>)
          (snd (cr3_dump_init ex_v2p
             ((cr3_dump_exit (snd (cr3_dump_init ex_v2p ex_kernel)))
                \<lparr>tasks := [ex_zombie, ex_worker, ex_init]\<rparr>)))))
   \<and> tl (emitted ex_kernel (snd (cr3_dump_init ex_v2p ex_kernel))) =
       tl (emitted
          ((cr3_dump_exit (snd (cr3_dump_init ex_v2p ex_kernel)))\<lparr>tasks := tasks ex_kernel\<rparr>)
          (snd (cr3_dump_init ex_v2p
             ((cr3_dump_exit (snd (cr3_dump_init ex_v2p ex_kernel)))
                \<lparr>tasks := tasks ex_kernel\<rparr>))))"
proof -
  have p: "set [ex_zombie, ex_worker, ex_init] = set (tasks ex_kernel)"
    by (auto simp: ex_kernel_def)
  have q: "set (tasks ex_kernel) = set (tasks ex_kernel)"
    by (rule refl)
  have a: "tl (emitted ex_kernel (snd (cr3_dump_init ex_v2p ex_kernel))) =
     [(KERN_INFO, ''PID: 1 | Comm: init | CR3 (PGD phys): 0x1000\<newline>''),
      (KERN_INFO, ''PID: 50 | Comm: worker | CR3 (PGD phys): 0x2000\<newline>'')]"
    by (simp add: emitted_init ex_lines_all)
  have "report_lines ex_v2p [ex_zombie, ex_worker, ex_init] =
      report_lines ex_v2p [ex_zombie] @ report_lines ex_v2p [ex_worker]
        @ report_lines ex_v2p [ex_init]"
    by (simp add: report_lines_concat)
  then have b: "tl (emitted
          ((cr3_dump_exit (snd (cr3_dump_init ex_v2p ex_kernel)))
             \<lparr>tasks := [ex_zombie, ex_worker, ex_init]\<rparr>)
          (snd (cr3_dump_init ex_v2p
             ((cr3_dump_exit (snd (cr3_dump_init ex_v2p ex_kernel)))
                \<lparr>tasks := [ex_zombie, ex_worker, ex_init]\<rparr>)))) =
     [(KERN_INFO, ''PID: 50 | Comm: worker | CR3 (PGD phys): 0x2000\<newline>''),
      (KERN_INFO, ''PID: 1 | Comm: init | CR3 (PGD phys): 0x1000\<newline>'')]"
    by (simp add: emitted_init ex_lines_init ex_lines_worker ex_lines_zombie)
  note c = two_runs_same_lines [OF p, of ex_v2p, unfolded Let_def, THEN conjunct2, THEN conjunct1]
  note d = two_runs_same_lines [OF q, of ex_v2p, unfolded Let_def, THEN conjunct2, THEN conjunct2,
      rule_format, OF refl, THEN conjunct2]
  from a b c d show ?thesis by (intro conjI)
qed

text \<open>
  C8: the per-process lines of one run of \<open>cr3_dump_init\<close> follow the banner in the order
  in which the host's enumeration yields the processes: the new part of the log is the
  banner and then the enumeration mapped to its lines, a process without a memory
  descriptor dropped, nothing reordered, repeated or put in between.
\<close>

theorem report_lines_in_enumeration_order:
  "klog (snd (cr3_dump_init v s)) =
     klog s @ (KERN_INFO, loaded_banner) #
       List.map_filter
         (\<lambda>t. map_option (\<lambda>m. (KERN_INFO, report_line (pid t) (comm t) (v (pgd m))))
                (case mm t of None \<Rightarrow> active_mm t | Some m \<Rightarrow> Some m))
         (tasks s)"
proof -
  have "concat (map (task_lines v) ts) =
     List.map_filter
         (\<lambda>t. map_option (\<lambda>m. (KERN_INFO, report_line (pid t) (comm t) (v (pgd m))))
                (case mm t of None \<Rightarrow> active_mm t | Some m \<Rightarrow> Some m)) ts" for ts
  proof (induction ts)
    case Nil
    show ?case by (simp add: map_filter_simps)
  next
    case (Cons t ts)
    show ?case
    proof (cases "mm t")
      case None
      note primary = None
      show ?thesis
      proof (cases "active_mm t")
        case None
        with primary Cons show ?thesis by (simp add: map_filter_simps task_lines_none)
      next
        case (Some m)
        with primary Cons show ?thesis by (simp add: map_filter_simps task_lines_active_mm)
      qed
    next
      case (Some m)
      with Cons show ?thesis by (simp add: map_filter_simps task_lines_mm)
    qed
  qed
  then show ?thesis by (simp add: init_result)
qed

text \<open>
  C9, as amended: \<open>cr3_dump_init\<close> returns the constant 0 and changes nothing of the host
  state but the log, to which it appends its banner and one line for each process that
  has a memory descriptor; the process list, with every task and memory descriptor in
  it, is as before. \<open>cr3_dump_exit\<close> returns nothing and changes nothing but the log, to
  which it appends its banner.
\<close>

theorem only_the_log_changes:
  "cr3_dump_init v s =
     (0, s\<lparr>klog := klog s @ (KERN_INFO, loaded_banner) # report_lines v (tasks s)\<rparr>)
   \<and> length (report_lines v (tasks s)) =
       length (filter (\<lambda>t. \<not> (mm t = None \<and> active_mm t = None)) (tasks s))
   \<and> tasks (snd (cr3_dump_init v s)) = tasks s
   \<and> cr3_dump_exit s = s\<lparr>klog := klog s @ [(KERN_INFO, unloaded_banner)]\<rparr>
   \<and> tasks (cr3_dump_exit s) = tasks s"
  by (simp add: init_result report_lines_concat [symmetric] length_report_lines
      cr3_dump_exit_def printk_def)

text \<open>
  C9, as stated, says that activation has no return value. \<open>cr3_dump_init\<close> is declared
  \<open>int\<close> and ends in \<^verbatim>\<open>return 0\<close>: on the example host it returns the value 0.
\<close>

theorem cr3_dump_init_has_return_value:
  "fst (cr3_dump_init ex_v2p ex_kernel) = 0"
  by (simp add: cr3_dump_init_def Let_def)

text \<open>
  C10: \<open>cr3_dump_init\<close> is a total function of the translation and the host state, so it
  returns for every (finite) process list; the value it returns is 0 whatever the
  processes and the translation are, and it logs at most one line per process after its
  banner.
\<close>

theorem cr3_dump_init_returns_zero:
  "fst (cr3_dump_init v s) = 0
   \<and> (\<exists>s'. cr3_dump_init v s = (0, s'))
   \<and> length (klog (snd (cr3_dump_init v s))) \<le> length (klog s) + 1 + length (tasks s)"
proof -
  have "length (concat (map (task_lines v) ts)) \<le> length ts" for ts
  proof (induction ts)
    case Nil
    show ?case by simp
  next
    case (Cons t ts)
    have "length (task_lines v t) \<le> 1"
      by (simp add: task_lines_cases split: option.splits)
    with Cons show ?case by simp
  qed
  from this [of "tasks s"] show ?thesis by (simp add: init_result)
qed

end
